theory Spec2Isabelle
  imports Complex_Main
begin

section \<open>Python values and effects shared by cronmonitor.py and simple.py\<close>

text \<open>
  The exception classes that the handlers of the two modules tell apart. \<open>URLError\<close>
  (with its subclass HTTPError) and every other subclass of \<open>Exception\<close> are caught by
  \<^verbatim>\<open>except Exception\<close>; \<open>KeyboardInterrupt\<close> derives from BaseException only.
  \<open>OtherException c m\<close> is an exception of class \<open>c\<close> (a subclass of Exception other than
  URLError) with message \<open>m\<close>.
\<close>

datatype pyexc = URLError string | KeyboardInterrupt | OtherException string string

fun is_URLError :: "pyexc \<Rightarrow> bool" where
  "is_URLError (URLError m) = True"
| "is_URLError KeyboardInterrupt = False"
| "is_URLError (OtherException c m) = False"

fun is_KeyboardInterrupt :: "pyexc \<Rightarrow> bool" where
  "is_KeyboardInterrupt (URLError m) = False"
| "is_KeyboardInterrupt KeyboardInterrupt = True"
| "is_KeyboardInterrupt (OtherException c m) = False"

fun is_Exception :: "pyexc \<Rightarrow> bool" where
  "is_Exception (URLError m) = True"
| "is_Exception KeyboardInterrupt = False"
| "is_Exception (OtherException c m) = True"

fun class_name :: "pyexc \<Rightarrow> string" where
  "class_name (URLError m) = ''URLError''"
| "class_name KeyboardInterrupt = ''KeyboardInterrupt''"
| "class_name (OtherException c m) = c"

text \<open>
  A formatted string is kept as its pieces: the literal text and the interpolated
  values. \<open>Now\<close> stands for the timestamp \<^verbatim>\<open>datetime.now().strftime(...)\<close>.
\<close>

datatype piece = Lit string | Now | IntArg int | NumArg rat | ExcArg pyexc

type_synonym message = "piece list"

text \<open>
  What the program does to the outside world, in the order it does it: an HTTP GET
  (URL, request headers set by the caller, timeout in seconds), a blocking sleep, a line
  printed to standard output, a traceback printed to standard error.
\<close>

datatype event =
    Request string "(string \<times> string) list" int
  | Sleep rat
  | Print message
  | PrintExc pyexc

fun is_request :: "event \<Rightarrow> bool" where
  "is_request (Request u h t) = True"
| "is_request (Sleep d) = False"
| "is_request (Print m) = False"
| "is_request (PrintExc e) = False"

fun is_sleep :: "event \<Rightarrow> bool" where
  "is_sleep (Request u h t) = False"
| "is_sleep (Sleep d) = True"
| "is_sleep (Print m) = False"
| "is_sleep (PrintExc e) = False"

definition requests :: "event list \<Rightarrow> event list" where
  "requests tr = filter is_request tr"

definition sleeps :: "event list \<Rightarrow> event list" where
  "sleeps tr = filter is_sleep tr"

text \<open>The requests and sleeps of a trace, in order, with the printed lines left out.\<close>

definition actions :: "event list \<Rightarrow> event list" where
  "actions tr = filter (\<lambda>e. is_request e \<or> is_sleep e) tr"

text \<open>
  The network is a parameter: the outcome of the k-th call of
  \<^verbatim>\<open>urllib.request.urlopen\<close> (counted from 0 over the whole run). A call returns a
  response with a status, raises URLError (connection failure, timeout while connecting,
  HTTPError for a status outside 200..299), or raises another subclass of Exception
  (a timeout while reading, ValueError, ...). An interrupt of the process is not an
  outcome of the request and is not part of the network. Printing a line is taken not
  to fail.
\<close>

datatype http_outcome =
    Responded int
  | FailedURLError string
  | FailedOther string string

type_synonym net = "nat \<Rightarrow> http_outcome"

definition urlopen ::
  "net \<Rightarrow> string \<Rightarrow> (string \<times> string) list \<Rightarrow> int \<Rightarrow> event list
     \<Rightarrow> (pyexc + int) \<times> event list" where
  "urlopen nw url headers tmo tr =
     (case nw (length (requests tr)) of
        Responded status \<Rightarrow> (Inr status, tr @ [Request url headers tmo])
      | FailedURLError m \<Rightarrow> (Inl (URLError m), tr @ [Request url headers tmo])
      | FailedOther c m \<Rightarrow> (Inl (OtherException c m), tr @ [Request url headers tmo]))"

text \<open>\<^verbatim>\<open>time.sleep\<close> raises ValueError for a negative duration.\<close>

definition time_sleep :: "rat \<Rightarrow> event list \<Rightarrow> (pyexc + unit) \<times> event list" where
  "time_sleep d tr =
     (if d < 0 then (Inl (OtherException ''ValueError'' ''sleep length must be non-negative''), tr)
      else (Inr (), tr @ [Sleep d]))"

text \<open>A scripted network: the k-th request gets the k-th outcome of the list, and every
  request after the end of the list finds the host unreachable.\<close>

definition scripted :: "http_outcome list \<Rightarrow> net" where
  "scripted os k = (if k < length os then os ! k else FailedURLError ''unreachable'')"

section \<open>cronmonitor.py: class CronMonitor\<close>

record CronMonitor =
  token :: string
  timeout :: int
  retries :: int
  verbose :: bool
  ping_url :: string

text \<open>The program state a method runs in: the attributes of the instance \<open>self\<close> and
  the trace of effects so far.\<close>

record state =
  self :: CronMonitor
  trace :: "event list"

definition BASE_URL :: string where
  "BASE_URL = ''https://cronmonitor.app''"

definition CronMonitor_init :: "string \<Rightarrow> int \<Rightarrow> int \<Rightarrow> bool \<Rightarrow> CronMonitor" where
  "CronMonitor_init tok tmo rts vb =
     \<lparr> token = tok, timeout = tmo, retries = rts, verbose = vb,
       ping_url = BASE_URL @ ''/ping/'' @ tok \<rparr>"

text \<open>The defaults of the keyword arguments of \<^verbatim>\<open>__init__\<close>.\<close>

definition default_timeout :: int where "default_timeout = 10"
definition default_retries :: int where "default_retries = 3"
definition default_verbose :: bool where "default_verbose = False"

definition CronMonitor_log :: "message \<Rightarrow> state \<Rightarrow> state" where
  "CronMonitor_log msg s =
     (if verbose (self s)
      then s\<lparr>trace := trace s @ [Print ([Lit ''['', Now, Lit ''] [CronMonitor] ''] @ msg)]\<rparr>
      else s)"

text \<open>How control leaves a block of statements: by an exception, by \<^verbatim>\<open>return\<close>,
  or by falling through to the next statement.\<close>

datatype 'a ctl = Raise pyexc | Return 'a | Next

text \<open>The body of the \<^verbatim>\<open>try\<close> of one attempt (lines 87 to 98).\<close>

definition try_body :: "net \<Rightarrow> int \<Rightarrow> state \<Rightarrow> bool ctl \<times> state" where
  "try_body nw attempt s =
     (let s1 = CronMonitor_log [Lit ''Ping attempt '', IntArg attempt, Lit ''/'', IntArg (retries (self s))] s;
          (response, tr2) = urlopen nw (ping_url (self s1))
                               [(''User-Agent'', ''CronMonitor-Python/1.0'')]
                               (timeout (self s1)) (trace s1);
          s2 = s1\<lparr>trace := tr2\<rparr>
      in case response of
           Inl e \<Rightarrow> (Raise e, s2)
         | Inr status \<Rightarrow>
             if status = 200 then (Return True, CronMonitor_log [Lit ''Ping sent successfully''] s2)
             else (Next, s2))"

text \<open>The \<^verbatim>\<open>try\<close> with its two handlers (lines 86 to 103).\<close>

definition try_attempt :: "net \<Rightarrow> int \<Rightarrow> state \<Rightarrow> bool ctl \<times> state" where
  "try_attempt nw attempt s =
     (case try_body nw attempt s of
        (Raise e, s1) \<Rightarrow>
          if is_URLError e
          then (Next, CronMonitor_log [Lit ''Attempt '', IntArg attempt, Lit '' failed: '', ExcArg e] s1)
          else if is_Exception e
          then (Next, CronMonitor_log [Lit ''Attempt '', IntArg attempt, Lit '' failed: '', ExcArg e] s1)
          else (Raise e, s1)
      | (Return b, s1) \<Rightarrow> (Return b, s1)
      | (Next, s1) \<Rightarrow> (Next, s1))"

text \<open>The wait before the next attempt (lines 106 to 109). The product
  \<^verbatim>\<open>0.5 * attempt\<close> is exact in binary floating point for every attempt number below
  \<open>2 ^ 53\<close>, and is modelled as a rational.\<close>

definition backoff :: "int \<Rightarrow> state \<Rightarrow> (pyexc + unit) \<times> state" where
  "backoff attempt s =
     (if attempt < retries (self s)
      then (let sleep_time = (1 / 2) * of_int attempt;
                s1 = CronMonitor_log [Lit ''Waiting '', NumArg sleep_time, Lit ''s before retry...''] s;
                (r, tr2) = time_sleep sleep_time (trace s1)
            in (r, s1\<lparr>trace := tr2\<rparr>))
      else (Inr (), s))"

text \<open>The \<^verbatim>\<open>for\<close> loop over the attempt numbers that remain, and the two
  statements after it (lines 85 to 112).\<close>

fun ping_loop :: "net \<Rightarrow> int list \<Rightarrow> state \<Rightarrow> (pyexc + bool) \<times> state" where
  "ping_loop nw [] s = (Inr False, CronMonitor_log [Lit ''All ping attempts failed''] s)"
| "ping_loop nw (attempt # rest) s =
     (case try_attempt nw attempt s of
        (Raise e, s1) \<Rightarrow> (Inl e, s1)
      | (Return b, s1) \<Rightarrow> (Inr b, s1)
      | (Next, s1) \<Rightarrow>
          (case backoff attempt s1 of
             (Inl e, s2) \<Rightarrow> (Inl e, s2)
           | (Inr u, s2) \<Rightarrow> ping_loop nw rest s2))"

text \<open>\<^verbatim>\<open>range(1, self.retries + 1)\<close> is the list \<open>[1..retries]\<close>, empty when
  \<open>retries < 1\<close>.\<close>

definition CronMonitor_ping :: "net \<Rightarrow> state \<Rightarrow> (pyexc + bool) \<times> state" where
  "CronMonitor_ping nw s = ping_loop nw [1..retries (self s)] s"

text \<open>
  \<^verbatim>\<open>wrap(func)\<close> returns the closure \<^verbatim>\<open>wrapper\<close>. The wrapped function is a parameter:
  its name and, for each argument, whether it raises or returns a value. The job's own
  effects are not part of the trace.
\<close>

definition wrapper ::
  "string \<Rightarrow> ('a \<Rightarrow> pyexc + 'r) \<Rightarrow> net \<Rightarrow> 'a \<Rightarrow> state \<Rightarrow> (pyexc + 'r) \<times> state" where
  "wrapper func_name func nw args s =
     (let s1 = CronMonitor_log [Lit ''Starting wrapped function: '', Lit func_name] s
      in case func args of
           Inl e \<Rightarrow> (Inl e, s1)
         | Inr result \<Rightarrow>
             (let s2 = CronMonitor_log
                         [Lit ''Function '', Lit func_name, Lit '' completed, sending ping...''] s1
              in case CronMonitor_ping nw s2 of
                   (Inl e, s3) \<Rightarrow> (Inl e, s3)
                 | (Inr b, s3) \<Rightarrow> (Inr result, s3)))"

definition wrap ::
  "string \<Rightarrow> ('a \<Rightarrow> pyexc + 'r) \<Rightarrow> (net \<Rightarrow> 'a \<Rightarrow> state \<Rightarrow> (pyexc + 'r) \<times> state)" where
  "wrap func_name func = wrapper func_name func"

text \<open>\<^verbatim>\<open>__enter__\<close> returns the instance itself.\<close>

definition CronMonitor_enter :: "state \<Rightarrow> (pyexc + CronMonitor) \<times> state" where
  "CronMonitor_enter s =
     (let s1 = CronMonitor_log [Lit ''Entering CronMonitor context''] s
      in (Inr (self s1), s1))"

text \<open>\<^verbatim>\<open>__exit__\<close> gets the exception that left the block, or \<open>None\<close>.\<close>

definition CronMonitor_exit :: "net \<Rightarrow> pyexc option \<Rightarrow> state \<Rightarrow> (pyexc + bool) \<times> state" where
  "CronMonitor_exit nw exc s =
     (case exc of
        None \<Rightarrow>
          (let s1 = CronMonitor_log [Lit ''Context completed successfully, sending ping...''] s
           in case CronMonitor_ping nw s1 of
                (Inl e, s2) \<Rightarrow> (Inl e, s2)
              | (Inr b, s2) \<Rightarrow> (Inr False, s2))
      | Some e \<Rightarrow>
          (Inr False,
           CronMonitor_log [Lit ''Context exited with exception: '', Lit (class_name e)] s))"

text \<open>
  The statement \<^verbatim>\<open>with monitor: body\<close> (line 234), by the rules of the language:
  \<^verbatim>\<open>__enter__\<close>, the body, then \<^verbatim>\<open>__exit__\<close> with the exception of the body if it
  raised one; that exception is raised again unless \<^verbatim>\<open>__exit__\<close> returned a true value.
  The body is a parameter: the exception it raises, if any.
\<close>

definition with_monitor :: "net \<Rightarrow> pyexc option \<Rightarrow> state \<Rightarrow> (pyexc + unit) \<times> state" where
  "with_monitor nw body s =
     (case CronMonitor_enter s of
        (Inl e, s1) \<Rightarrow> (Inl e, s1)
      | (Inr m, s1) \<Rightarrow>
          (case body of
             None \<Rightarrow>
               (case CronMonitor_exit nw None s1 of
                  (Inl e, s2) \<Rightarrow> (Inl e, s2)
                | (Inr b, s2) \<Rightarrow> (Inr (), s2))
           | Some e \<Rightarrow>
               (case CronMonitor_exit nw (Some e) s1 of
                  (Inl e', s2) \<Rightarrow> (Inl e', s2)
                | (Inr suppress, s2) \<Rightarrow> if suppress then (Inr (), s2) else (Inl e, s2))))"

subsection \<open>Convenience functions\<close>

text \<open>The module-level \<^verbatim>\<open>ping(token, timeout=10)\<close>: \<open>None\<close> is the omitted keyword
  argument. The instance is local to the call, so only the trace is returned.\<close>

definition ping :: "string \<Rightarrow> int option \<Rightarrow> net \<Rightarrow> event list \<Rightarrow> (pyexc + bool) \<times> event list" where
  "ping tok tmo nw tr =
     (let t = (case tmo of None \<Rightarrow> 10 | Some v \<Rightarrow> v);
          monitor = CronMonitor_init tok t default_retries default_verbose;
          (r, s) = CronMonitor_ping nw \<lparr> self = monitor, trace = tr \<rparr>
      in (r, trace s))"

section \<open>simple.py\<close>

definition PING_URL :: string where
  "PING_URL = ''https://cronmonitor.app/ping/YOUR_TOKEN''"

definition TIMEOUT :: int where
  "TIMEOUT = 10"

definition log_simple :: "message \<Rightarrow> event list \<Rightarrow> event list" where
  "log_simple msg tr = tr @ [Print ([Lit ''['', Now, Lit ''] ''] @ msg)]"

definition ping_cronmonitor :: "net \<Rightarrow> event list \<Rightarrow> (pyexc + bool) \<times> event list" where
  "ping_cronmonitor nw tr =
     (let tr1 = log_simple [Lit ''Sending ping to CronMonitor...''] tr
      in case urlopen nw PING_URL [] TIMEOUT tr1 of
           (Inr response, tr2) \<Rightarrow> (Inr True, log_simple [Lit ''Ping sent successfully!''] tr2)
         | (Inl e, tr2) \<Rightarrow>
             if is_URLError e
             then (Inr False, log_simple [Lit ''Warning: Failed to ping CronMonitor: '', ExcArg e] tr2)
             else if is_Exception e
             then (Inr False,
                   log_simple [Lit ''Warning: Unexpected error pinging CronMonitor: '', ExcArg e] tr2)
             else (Inl e, tr2))"

text \<open>
  \<^verbatim>\<open>run_job\<close> is the place for the job logic, which raises an exception if something
  fails. The job is a parameter: the exception that the work between the two log lines
  raises, if any (\<open>KeyboardInterrupt\<close> when the user interrupts it).
\<close>

definition run_job :: "pyexc option \<Rightarrow> event list \<Rightarrow> (pyexc + unit) \<times> event list" where
  "run_job job tr =
     (let tr1 = log_simple [Lit ''Starting job...''] tr
      in case job of
           Some e \<Rightarrow> (Inl e, tr1)
         | None \<Rightarrow>
             (case time_sleep 1 tr1 of
                (Inl e, tr2) \<Rightarrow> (Inl e, tr2)
              | (Inr u, tr2) \<Rightarrow> (Inr (), log_simple [Lit ''Job completed successfully!''] tr2)))"

text \<open>The two handlers of \<^verbatim>\<open>main\<close> (lines 100 to 114).\<close>

definition main_handlers :: "pyexc \<Rightarrow> event list \<Rightarrow> (pyexc + int) \<times> event list" where
  "main_handlers e tr =
     (if is_KeyboardInterrupt e
      then (Inr 1, log_simple [Lit ''Job interrupted by user''] tr)
      else if is_Exception e
      then (Inr 1, log_simple [Lit ''ERROR: Job failed - '', ExcArg e] tr @ [PrintExc e])
      else (Inl e, tr))"

definition main :: "net \<Rightarrow> pyexc option \<Rightarrow> event list \<Rightarrow> (pyexc + int) \<times> event list" where
  "main nw job tr =
     (case run_job job tr of
        (Inl e, tr1) \<Rightarrow> main_handlers e tr1
      | (Inr u, tr1) \<Rightarrow>
          (case ping_cronmonitor nw tr1 of
             (Inl e, tr2) \<Rightarrow> main_handlers e tr2
           | (Inr b, tr2) \<Rightarrow> (Inr 0, tr2)))"

section \<open>Notions used to state the properties\<close>

text \<open>The request that \<^verbatim>\<open>ping\<close> issues on every attempt (lines 89 to 94).\<close>

definition the_request :: "state \<Rightarrow> event" where
  "the_request s = Request (ping_url (self s)) [(''User-Agent'', ''CronMonitor-Python/1.0'')] (timeout (self s))"

text \<open>The requests and sleeps of one round of the loop that does not succeed: the
  request, and the wait if another attempt follows.\<close>

definition round_actions :: "state \<Rightarrow> int \<Rightarrow> event list" where
  "round_actions s a =
     the_request s # (if a < retries (self s) then [Sleep ((1 / 2) * of_int a)] else [])"

text \<open>An attempt fails unless it gets a response with status 200.\<close>

fun attempt_fails :: "http_outcome \<Rightarrow> bool" where
  "attempt_fails (Responded status) = (status \<noteq> 200)"
| "attempt_fails (FailedURLError m) = True"
| "attempt_fails (FailedOther c m) = True"

text \<open>The instance of the module's own example (lines 201 to 206), before any effect.\<close>

definition example_monitor :: CronMonitor where
  "example_monitor = CronMonitor_init ''YOUR_TOKEN'' 10 3 True"

definition example_state :: state where
  "example_state = \<lparr> self = example_monitor, trace = [] \<rparr>"

text \<open>
  The convenience operation in the words of the specification: construct a Notifier with
  the given token and timeout and the remaining configuration at its defaults (retries 3,
  not verbose), and call its delivery operation once.
\<close>

definition spec_default_Notifier :: "string \<Rightarrow> int \<Rightarrow> CronMonitor" where
  "spec_default_Notifier tok tmo = CronMonitor_init tok tmo 3 False"

definition spec_attemptDelivery_once :: "string \<Rightarrow> int \<Rightarrow> net \<Rightarrow> event list \<Rightarrow> (pyexc + bool) \<times> event list" where
  "spec_attemptDelivery_once tok tmo nw tr =
     (case CronMonitor_ping nw \<lparr> self = spec_default_Notifier tok tmo, trace = tr \<rparr> of
        (r, s) \<Rightarrow> (r, trace s))"

section \<open>Effects of the single steps\<close>


lemma self_log: "self (CronMonitor_log m s) = self s"
  by (simp add: CronMonitor_log_def)

lemma actions_log: "actions (trace (CronMonitor_log m s)) = actions (trace s)"
  by (simp add: CronMonitor_log_def actions_def)

lemma requests_log: "requests (trace (CronMonitor_log m s)) = requests (trace s)"
  by (simp add: CronMonitor_log_def requests_def)

lemma sleeps_log: "sleeps (trace (CronMonitor_log m s)) = sleeps (trace s)"
  by (simp add: CronMonitor_log_def sleeps_def)

lemma requests_actions: "requests tr = filter is_request (actions tr)"
  by (auto simp: requests_def actions_def intro: filter_cong)

lemma sleeps_actions: "sleeps tr = filter is_sleep (actions tr)"
  by (auto simp: sleeps_def actions_def intro: filter_cong)

lemma actions_simps:
  "actions [] = []"
  "actions (tr @ tr') = actions tr @ actions tr'"
  "actions (Request u h t # tr) = Request u h t # actions tr"
  "actions (Sleep d # tr) = Sleep d # actions tr"
  "actions (Print m # tr) = actions tr"
  "actions (PrintExc e # tr) = actions tr"
  by (simp_all add: actions_def)

lemma requests_simps:
  "requests [] = []"
  "requests (tr @ tr') = requests tr @ requests tr'"
  "requests (Request u h t # tr) = Request u h t # requests tr"
  "requests (Sleep d # tr) = requests tr"
  "requests (Print m # tr) = requests tr"
  "requests (PrintExc e # tr) = requests tr"
  by (simp_all add: requests_def)

lemma sleeps_simps:
  "sleeps [] = []"
  "sleeps (tr @ tr') = sleeps tr @ sleeps tr'"
  "sleeps (Request u h t # tr) = sleeps tr"
  "sleeps (Sleep d # tr) = Sleep d # sleeps tr"
  "sleeps (Print m # tr) = sleeps tr"
  "sleeps (PrintExc e # tr) = sleeps tr"
  by (simp_all add: sleeps_def)

lemma try_body_self: "self (snd (try_body nw a s)) = self s"
  by (simp add: try_body_def urlopen_def self_log Let_def split: http_outcome.splits prod.splits sum.splits)

lemma try_body_actions:
  "actions (trace (snd (try_body nw a s))) = actions (trace s) @ [the_request s]"
  by (simp add: try_body_def urlopen_def self_log actions_log the_request_def Let_def actions_simps split: http_outcome.splits prod.splits sum.splits)

lemma try_body_fst:
  "fst (try_body nw a s) =
     (case nw (length (requests (trace s))) of
        Responded st \<Rightarrow> if st = 200 then Return True else Next
      | FailedURLError m \<Rightarrow> Raise (URLError m)
      | FailedOther c m \<Rightarrow> Raise (OtherException c m))"
  by (simp add: try_body_def urlopen_def requests_log Let_def split: http_outcome.splits prod.splits sum.splits)

lemma try_attempt_self: "self (snd (try_attempt nw a s)) = self s"
  using try_body_self[of nw a s]
  by (auto simp add: try_attempt_def self_log split: prod.splits ctl.splits)

lemma try_attempt_actions:
  "actions (trace (snd (try_attempt nw a s))) = actions (trace s) @ [the_request s]"
  using try_body_actions[of nw a s]
  by (auto simp add: try_attempt_def actions_log split: prod.splits ctl.splits)

lemma try_attempt_fst:
  "fst (try_attempt nw a s) =
     (if nw (length (requests (trace s))) = Responded 200 then Return True else Next)"
  using try_body_fst[of nw a s]
  by (auto simp add: try_attempt_def split: prod.splits ctl.splits http_outcome.splits if_splits)

lemma backoff_self: "self (snd (backoff a s)) = self s"
  by (simp add: backoff_def time_sleep_def self_log Let_def split: prod.splits sum.splits)

lemma backoff_fst: "0 \<le> a \<Longrightarrow> fst (backoff a s) = Inr ()"
  by (simp add: backoff_def time_sleep_def Let_def split: prod.splits sum.splits)

lemma backoff_actions:
  "0 \<le> a \<Longrightarrow> actions (trace (snd (backoff a s))) =
     actions (trace s) @ (if a < retries (self s) then [Sleep ((1 / 2) * of_int a)] else [])"
  by (simp add: backoff_def time_sleep_def Let_def actions_log actions_simps split: prod.splits sum.splits)


lemma ping_loop_Cons:
  assumes "0 \<le> a"
  shows "ping_loop nw (a # rest) s =
     (if nw (length (requests (trace s))) = Responded 200
      then (Inr True, snd (try_attempt nw a s))
      else ping_loop nw rest (snd (backoff a (snd (try_attempt nw a s)))))"
proof -
  obtain c s1 where t: "try_attempt nw a s = (c, s1)" by (cases "try_attempt nw a s")
  obtain d s2 where b: "backoff a s1 = (d, s2)" by (cases "backoff a s1")
  have c: "c = (if nw (length (requests (trace s))) = Responded 200 then Return True else Next)"
    using try_attempt_fst[of nw a s] t by simp
  have d: "d = Inr ()" using backoff_fst[OF assms, of s1] b by simp
  show ?thesis by (simp add: t b c d)
qed

lemma round_self: "self (snd (backoff a (snd (try_attempt nw a s)))) = self s"
  by (simp add: backoff_self try_attempt_self)

lemma round_trace:
  "0 \<le> a \<Longrightarrow> actions (trace (snd (backoff a (snd (try_attempt nw a s))))) =
     actions (trace s) @ round_actions s a"
  by (simp add: backoff_actions try_attempt_actions try_attempt_self round_actions_def)

lemma round_requests:
  "0 \<le> a \<Longrightarrow> requests (trace (snd (backoff a (snd (try_attempt nw a s))))) =
     requests (trace s) @ [the_request s]"
  by (simp add: requests_actions round_trace round_actions_def the_request_def)

lemma ping_loop_self: "self (snd (ping_loop nw xs s)) = self s"
proof (induction xs arbitrary: s)
  case Nil
  show ?case by (simp add: self_log)
next
  case (Cons a xs)
  obtain c s1 where t: "try_attempt nw a s = (c, s1)" by (cases "try_attempt nw a s")
  obtain d s2 where b: "backoff a s1 = (d, s2)" by (cases "backoff a s1")
  have s1: "self s1 = self s" using try_attempt_self[of nw a s] t by simp
  have s2: "self s2 = self s" using backoff_self[of a s1] b s1 by simp
  show ?case using Cons.IH[of s2] s1 s2
    by (simp add: t b split: ctl.splits sum.splits)
qed

lemma ping_loop_returns:
  "\<forall>x\<in>set xs. 0 \<le> x \<Longrightarrow> \<exists>b. fst (ping_loop nw xs s) = Inr b"
proof (induction xs arbitrary: s)
  case Nil
  show ?case by (rule exI[of _ False]) simp
next
  case (Cons a xs)
  then have a: "0 \<le> a" and rest: "\<forall>x\<in>set xs. 0 \<le> x" by simp_all
  show ?case using Cons.IH[OF rest] by (auto simp add: ping_loop_Cons[OF a] simp del: ping_loop.simps)
qed

lemma ping_loop_all_fail:
  assumes "\<forall>x\<in>set xs. 0 \<le> x"
      and "\<forall>k<length xs. nw (length (requests (trace s)) + k) \<noteq> Responded 200"
  shows "fst (ping_loop nw xs s) = Inr False
       \<and> actions (trace (snd (ping_loop nw xs s))) =
           actions (trace s) @ concat (map (round_actions s) xs)"
  using assms
proof (induction xs arbitrary: s)
  case Nil
  show ?case by (simp add: actions_log)
next
  case (Cons a xs)
  let ?s' = "snd (backoff a (snd (try_attempt nw a s)))"
  from Cons.prems have a: "0 \<le> a" and rest: "\<forall>x\<in>set xs. 0 \<le> x" by simp_all
  from Cons.prems(2) have now: "nw (length (requests (trace s))) \<noteq> Responded 200"
    by (metis add.right_neutral length_Cons zero_less_Suc)
  have later: "\<forall>k<length xs. nw (length (requests (trace ?s')) + k) \<noteq> Responded 200"
  proof (intro allI impI)
    fix k assume "k < length xs"
    then have "Suc k < length (a # xs)" by simp
    with Cons.prems(2) have "nw (length (requests (trace s)) + Suc k) \<noteq> Responded 200" by blast
    then show "nw (length (requests (trace ?s')) + k) \<noteq> Responded 200"
      by (simp add: round_requests[OF a])
  qed
  have ra: "round_actions ?s' = round_actions s"
    by (rule ext) (simp add: round_actions_def the_request_def round_self)
  show ?case using Cons.IH[OF rest later] now
    by (simp add: ping_loop_Cons[OF a] round_trace[OF a] ra del: ping_loop.simps)
qed

lemma ping_loop_success:
  assumes "\<forall>x\<in>set xs. 0 \<le> x"
      and "k < length xs"
      and "nw (length (requests (trace s)) + k) = Responded 200"
      and "\<forall>j<k. nw (length (requests (trace s)) + j) \<noteq> Responded 200"
  shows "fst (ping_loop nw xs s) = Inr True
       \<and> actions (trace (snd (ping_loop nw xs s))) =
           actions (trace s) @ concat (map (round_actions s) (take k xs)) @ [the_request s]"
  using assms
proof (induction xs arbitrary: s k)
  case Nil
  then show ?case by simp
next
  case (Cons a xs)
  let ?s' = "snd (backoff a (snd (try_attempt nw a s)))"
  from Cons.prems have a: "0 \<le> a" and rest: "\<forall>x\<in>set xs. 0 \<le> x" by simp_all
  show ?case
  proof (cases k)
    case 0
    with Cons.prems(3) have "nw (length (requests (trace s))) = Responded 200" by simp
    then show ?thesis using 0
      by (simp add: ping_loop_Cons[OF a] try_attempt_actions del: ping_loop.simps)
  next
    case (Suc k')
    with Cons.prems(2) have k': "k' < length xs" by simp
    from Cons.prems(4) Suc have now: "nw (length (requests (trace s))) \<noteq> Responded 200"
      by (metis add.right_neutral zero_less_Suc)
    have hit: "nw (length (requests (trace ?s')) + k') = Responded 200"
      using Cons.prems(3) Suc by (simp add: round_requests[OF a])
    have before: "\<forall>j<k'. nw (length (requests (trace ?s')) + j) \<noteq> Responded 200"
    proof (intro allI impI)
      fix j assume "j < k'"
      then have "Suc j < k" using Suc by simp
      with Cons.prems(4) have "nw (length (requests (trace s)) + Suc j) \<noteq> Responded 200" by blast
      then show "nw (length (requests (trace ?s')) + j) \<noteq> Responded 200"
        by (simp add: round_requests[OF a])
    qed
    have ra: "round_actions ?s' = round_actions s"
      by (rule ext) (simp add: round_actions_def the_request_def round_self)
    have rq: "the_request ?s' = the_request s"
      by (simp add: the_request_def round_self)
    show ?thesis using Cons.IH[OF rest k' hit before] now Suc
      by (simp add: ping_loop_Cons[OF a] round_trace[OF a] ra rq del: ping_loop.simps)
  qed
qed

section \<open>The attempts of a whole call\<close>


lemma attempt_fails_iff: "attempt_fails out \<longleftrightarrow> out \<noteq> Responded 200"
  by (cases out) simp_all

lemma CronMonitor_ping_self: "self (snd (CronMonitor_ping nw s)) = self s"
  by (simp add: CronMonitor_ping_def ping_loop_self)

lemma CronMonitor_ping_returns: "\<exists>b. fst (CronMonitor_ping nw s) = Inr b"
  unfolding CronMonitor_ping_def by (rule ping_loop_returns) simp

lemma rounds_all:
  assumes "1 \<le> retries (self s)"
  shows "concat (map (round_actions s) [1..retries (self s)]) =
         concat (map (\<lambda>i. [the_request s, Sleep ((1 / 2) * of_int i)]) [1..retries (self s) - 1])
         @ [the_request s]"
proof -
  let ?r = "retries (self s)"
  have split: "[1..?r] = [1..?r - 1] @ [?r]" using assms by (simp add: upto_rec2)
  have early: "map (round_actions s) [1..?r - 1] =
               map (\<lambda>i. [the_request s, Sleep ((1 / 2) * of_int i)]) [1..?r - 1]"
    by (rule map_cong) (simp_all add: round_actions_def)
  have final: "round_actions s ?r = [the_request s]" by (simp add: round_actions_def)
  show ?thesis by (subst split) (simp add: early final)
qed

lemma rounds_before:
  assumes "k < nat (retries (self s))"
  shows "concat (map (round_actions s) (take k [1..retries (self s)])) =
         concat (map (\<lambda>i. [the_request s, Sleep ((1 / 2) * of_int i)]) [1..int k])"
proof -
  let ?r = "retries (self s)"
  have tk: "take k [1..?r] = [1..int k]"
  proof (cases k)
    case 0
    then show ?thesis by simp
  next
    case (Suc k')
    have "[1..?r] = [1..int k] @ [int k + 1..?r]"
      using assms Suc by (intro upto_split2) auto
    then show ?thesis by simp
  qed
  have mp: "map (round_actions s) [1..int k] =
        map (\<lambda>i. [the_request s, Sleep ((1 / 2) * of_int i)]) [1..int k]"
    using assms by (intro map_cong) (auto simp add: round_actions_def)
  show ?thesis by (simp only: tk mp)
qed

lemma requests_rounds:
  "requests (concat (map (\<lambda>i. [the_request s, Sleep (f i)]) xs)) = replicate (length xs) (the_request s)"
  by (induction xs) (simp_all add: requests_simps the_request_def)

lemma sleeps_rounds:
  "sleeps (concat (map (\<lambda>i. [the_request s, Sleep (f i)]) xs)) = map (\<lambda>i. Sleep (f i)) xs"
  by (induction xs) (simp_all add: sleeps_simps the_request_def)

lemma requests_of_actions:
  "actions tr' = actions tr @ ys \<Longrightarrow> requests tr' = requests tr @ requests ys"
  by (simp add: requests_def actions_def) (metis (mono_tags, lifting) filter_append filter_filter filter_cong)

lemma sleeps_of_actions:
  "actions tr' = actions tr @ ys \<Longrightarrow> sleeps tr' = sleeps tr @ sleeps ys"
  by (simp add: sleeps_def actions_def) (metis (mono_tags, lifting) filter_append filter_filter filter_cong)

lemma CronMonitor_ping_all_fail:
  assumes "\<forall>k<nat (retries (self s)). nw (length (requests (trace s)) + k) \<noteq> Responded 200"
  shows "fst (CronMonitor_ping nw s) = Inr False"
proof -
  have fails: "\<forall>k<length [1..retries (self s)]. nw (length (requests (trace s)) + k) \<noteq> Responded 200"
    using assms by simp
  have nonneg: "\<forall>x\<in>set [1..retries (self s)]. 0 \<le> x" by simp
  from ping_loop_all_fail[OF nonneg fails] show ?thesis by (simp only: CronMonitor_ping_def)
qed

lemma CronMonitor_ping_first_success:
  assumes "k < nat (retries (self s))"
      and "nw (length (requests (trace s)) + k) = Responded 200"
      and "\<forall>j<k. nw (length (requests (trace s)) + j) \<noteq> Responded 200"
  shows "fst (CronMonitor_ping nw s) = Inr True"
    and "requests (trace (snd (CronMonitor_ping nw s))) =
           requests (trace s) @ replicate (Suc k) (the_request s)"
proof -
  let ?rounds = "concat (map (\<lambda>i. [the_request s, Sleep ((1 / 2) * of_int i)]) [1..int k])"
  have len: "k < length [1..retries (self s)]" using assms(1) by simp
  have nonneg: "\<forall>x\<in>set [1..retries (self s)]. 0 \<le> x" by simp
  from ping_loop_success[OF nonneg len assms(2) assms(3)]
  have res: "fst (CronMonitor_ping nw s) = Inr True"
    and act: "actions (trace (snd (CronMonitor_ping nw s))) =
                actions (trace s) @ ?rounds @ [the_request s]"
    by (simp_all only: CronMonitor_ping_def rounds_before[OF assms(1)])
  show "fst (CronMonitor_ping nw s) = Inr True" by (rule res)
  have "requests (?rounds @ [the_request s]) = replicate k (the_request s) @ [the_request s]"
    by (simp add: requests_simps(2) requests_rounds) (simp add: the_request_def requests_simps)
  also have "\<dots> = replicate (Suc k) (the_request s)"
    by (simp add: replicate_append_same)
  finally show "requests (trace (snd (CronMonitor_ping nw s))) =
           requests (trace s) @ replicate (Suc k) (the_request s)"
    using requests_of_actions[OF act] by simp
qed

lemma CronMonitor_ping_True_iff:
  "fst (CronMonitor_ping nw s) = Inr True \<longleftrightarrow>
     (\<exists>k<nat (retries (self s)). nw (length (requests (trace s)) + k) = Responded 200)"
proof
  assume t: "fst (CronMonitor_ping nw s) = Inr True"
  show "\<exists>k<nat (retries (self s)). nw (length (requests (trace s)) + k) = Responded 200"
  proof (rule ccontr)
    assume "\<not> ?thesis"
    then have "\<forall>k<nat (retries (self s)). nw (length (requests (trace s)) + k) \<noteq> Responded 200"
      by blast
    from CronMonitor_ping_all_fail[OF this] t show False by simp
  qed
next
  let ?P = "\<lambda>k. k < nat (retries (self s)) \<and> nw (length (requests (trace s)) + k) = Responded 200"
  assume "\<exists>k<nat (retries (self s)). nw (length (requests (trace s)) + k) = Responded 200"
  then obtain k where k: "?P k" by blast
  define k0 where "k0 = (LEAST k. ?P k)"
  have hit: "?P k0" unfolding k0_def using k by (rule LeastI)
  have before: "\<forall>j<k0. nw (length (requests (trace s)) + j) \<noteq> Responded 200"
  proof (intro allI impI)
    fix j assume j: "j < k0"
    then have "\<not> ?P j" unfolding k0_def by (rule not_less_Least)
    moreover have "j < nat (retries (self s))" using j hit by simp
    ultimately show "nw (length (requests (trace s)) + j) \<noteq> Responded 200" by simp
  qed
  from hit before show "fst (CronMonitor_ping nw s) = Inr True"
    by (intro CronMonitor_ping_first_success(1)[of k0]) simp_all
qed

lemma wrapper_raises:
  assumes "func args = Inl e"
  shows "wrapper name func nw args s =
           (Inl e, CronMonitor_log [Lit ''Starting wrapped function: '', Lit name] s)"
  using assms by (simp add: wrapper_def)

lemma wrapper_returns:
  assumes "func args = Inr v"
  shows "wrapper name func nw args s =
           (Inr v, snd (CronMonitor_ping nw
              (CronMonitor_log [Lit ''Function '', Lit name, Lit '' completed, sending ping...'']
                (CronMonitor_log [Lit ''Starting wrapped function: '', Lit name] s))))"
proof -
  let ?s2 = "CronMonitor_log [Lit ''Function '', Lit name, Lit '' completed, sending ping...'']
                (CronMonitor_log [Lit ''Starting wrapped function: '', Lit name] s)"
  obtain r s3 where p: "CronMonitor_ping nw ?s2 = (r, s3)"
    by (cases "CronMonitor_ping nw ?s2")
  obtain b where r: "r = Inr b"
    using CronMonitor_ping_returns[of nw ?s2] p by auto
  show ?thesis using assms by (simp add: wrapper_def p r)
qed

lemma wrapper_self: "self (snd (wrapper name func nw args s)) = self s"
proof (cases "func args")
  case (Inl e)
  then show ?thesis by (simp add: wrapper_raises self_log)
next
  case (Inr v)
  then show ?thesis by (simp add: wrapper_returns CronMonitor_ping_self self_log)
qed

lemma CronMonitor_exit_None:
  "CronMonitor_exit nw None s =
     (Inr False, snd (CronMonitor_ping nw
        (CronMonitor_log [Lit ''Context completed successfully, sending ping...''] s)))"
proof -
  let ?s1 = "CronMonitor_log [Lit ''Context completed successfully, sending ping...''] s"
  obtain r s2 where p: "CronMonitor_ping nw ?s1 = (r, s2)"
    by (cases "CronMonitor_ping nw ?s1")
  obtain b where r: "r = Inr b"
    using CronMonitor_ping_returns[of nw ?s1] p by auto
  show ?thesis by (simp add: CronMonitor_exit_def p r)
qed

lemma CronMonitor_exit_Some:
  "CronMonitor_exit nw (Some e) s =
     (Inr False, CronMonitor_log [Lit ''Context exited with exception: '', Lit (class_name e)] s)"
  by (simp add: CronMonitor_exit_def)

lemma with_monitor_Some:
  "with_monitor nw (Some e) s =
     (Inl e, CronMonitor_log [Lit ''Context exited with exception: '', Lit (class_name e)]
               (CronMonitor_log [Lit ''Entering CronMonitor context''] s))"
  by (simp add: with_monitor_def CronMonitor_enter_def CronMonitor_exit_Some Let_def)

lemma with_monitor_None:
  "with_monitor nw None s =
     (Inr (), snd (CronMonitor_ping nw
        (CronMonitor_log [Lit ''Context completed successfully, sending ping...'']
          (CronMonitor_log [Lit ''Entering CronMonitor context''] s))))"
  by (simp add: with_monitor_def CronMonitor_enter_def CronMonitor_exit_None Let_def)

section \<open>simple.py: the ping and the job\<close>

lemma ping_cronmonitor_fst:
  "fst (ping_cronmonitor nw tr) =
     (case nw (length (requests tr)) of
        Responded status \<Rightarrow> Inr True
      | FailedURLError m \<Rightarrow> Inr False
      | FailedOther c m \<Rightarrow> Inr False)"
  by (simp add: ping_cronmonitor_def urlopen_def log_simple_def requests_simps Let_def
        split: http_outcome.splits)

lemma ping_cronmonitor_requests:
  "requests (snd (ping_cronmonitor nw tr)) = requests tr @ [Request PING_URL [] TIMEOUT]"
  by (simp add: ping_cronmonitor_def urlopen_def log_simple_def requests_simps Let_def
        split: http_outcome.splits)

lemma ping_cronmonitor_returns: "\<exists>b. fst (ping_cronmonitor nw tr) = Inr b"
  by (cases "nw (length (requests tr))") (auto simp add: ping_cronmonitor_fst)

lemma requests_log_simple: "requests (log_simple m tr) = requests tr"
  by (simp add: log_simple_def requests_simps)

lemma run_job_None:
  "run_job None tr =
     (Inr (), log_simple [Lit ''Job completed successfully!'']
                (log_simple [Lit ''Starting job...''] tr @ [Sleep 1]))"
  by (simp add: run_job_def time_sleep_def Let_def)

lemma run_job_Some:
  "run_job (Some e) tr = (Inl e, log_simple [Lit ''Starting job...''] tr)"
  by (simp add: run_job_def Let_def)

lemma main_handlers_fst: "fst (main_handlers e tr) = Inr 1"
  by (cases e) (simp_all add: main_handlers_def)

lemma main_handlers_requests: "requests (snd (main_handlers e tr)) = requests tr"
  by (cases e) (simp_all add: main_handlers_def requests_simps requests_log_simple)

section \<open>The claims\<close>

text \<open>
  C1: with \<open>retries \<ge> 1\<close>, if each of the \<open>retries\<close> attempts fails (a status other than
  200, a timeout or a transport error), then \<^verbatim>\<open>ping()\<close> returns False, issues exactly
  \<open>retries\<close> requests, and sleeps exactly \<open>retries - 1\<close> times, \<open>0.5 * i\<close> seconds after
  attempt \<open>i\<close>, each sleep between two requests and none after the last request.
\<close>

theorem ping_all_attempts_fail:
  assumes "1 \<le> retries (self s)"
      and "\<forall>k<nat (retries (self s)). attempt_fails (nw (length (requests (trace s)) + k))"
  shows "fst (CronMonitor_ping nw s) = Inr False
       \<and> actions (trace (snd (CronMonitor_ping nw s))) =
           actions (trace s)
           @ concat (map (\<lambda>i. [the_request s, Sleep ((1 / 2) * of_int i)])
                         [1..retries (self s) - 1])
           @ [the_request s]
       \<and> requests (trace (snd (CronMonitor_ping nw s))) =
           requests (trace s) @ replicate (nat (retries (self s))) (the_request s)
       \<and> sleeps (trace (snd (CronMonitor_ping nw s))) =
           sleeps (trace s) @ map (\<lambda>i. Sleep ((1 / 2) * of_int i)) [1..retries (self s) - 1]"
proof -
  let ?r = "retries (self s)"
  let ?rounds = "concat (map (\<lambda>i. [the_request s, Sleep ((1 / 2) * of_int i)]) [1..?r - 1])"
  have fails: "\<forall>k<length [1..?r]. nw (length (requests (trace s)) + k) \<noteq> Responded 200"
    using assms(2) by (simp add: attempt_fails_iff)
  have nonneg: "\<forall>x\<in>set [1..?r]. 0 \<le> x" by simp
  from ping_loop_all_fail[OF nonneg fails]
  have res: "fst (CronMonitor_ping nw s) = Inr False"
    and act: "actions (trace (snd (CronMonitor_ping nw s))) =
                actions (trace s) @ ?rounds @ [the_request s]"
    by (simp_all only: CronMonitor_ping_def rounds_all[OF assms(1)])
  have rq: "requests (?rounds @ [the_request s]) = replicate (nat ?r) (the_request s)"
  proof -
    have "requests (?rounds @ [the_request s]) = replicate (nat (?r - 1)) (the_request s) @ [the_request s]"
      by (simp add: requests_simps(2) requests_rounds) (simp add: the_request_def requests_simps)
    also have "\<dots> = replicate (Suc (nat (?r - 1))) (the_request s)"
      by (simp add: replicate_append_same)
    also have "Suc (nat (?r - 1)) = nat ?r" using assms(1) by simp
    finally show ?thesis .
  qed
  have sl: "sleeps (?rounds @ [the_request s]) = map (\<lambda>i. Sleep ((1 / 2) * of_int i)) [1..?r - 1]"
    by (simp add: sleeps_simps(2) sleeps_rounds) (simp add: the_request_def sleeps_simps)
  have rqs: "requests (trace (snd (CronMonitor_ping nw s))) =
               requests (trace s) @ replicate (nat ?r) (the_request s)"
    using requests_of_actions[OF act] rq by simp
  have sls: "sleeps (trace (snd (CronMonitor_ping nw s))) =
               sleeps (trace s) @ map (\<lambda>i. Sleep ((1 / 2) * of_int i)) [1..?r - 1]"
    using sleeps_of_actions[OF act] sl by simp
  show ?thesis using res act rqs sls by blast
qed

theorem ping_all_attempts_fail_witness:
  "1 \<le> retries (self example_state)
   \<and> fst (CronMonitor_ping
            (scripted [Responded 500, FailedURLError ''timed out'', FailedOther ''TimeoutError'' ''timed out''])
            example_state) = Inr False
   \<and> actions (trace (snd (CronMonitor_ping
            (scripted [Responded 500, FailedURLError ''timed out'', FailedOther ''TimeoutError'' ''timed out''])
            example_state))) =
       [Request ''https://cronmonitor.app/ping/YOUR_TOKEN'' [(''User-Agent'', ''CronMonitor-Python/1.0'')] 10,
        Sleep (1 / 2),
        Request ''https://cronmonitor.app/ping/YOUR_TOKEN'' [(''User-Agent'', ''CronMonitor-Python/1.0'')] 10,
        Sleep 1,
        Request ''https://cronmonitor.app/ping/YOUR_TOKEN'' [(''User-Agent'', ''CronMonitor-Python/1.0'')] 10]"
  using ping_all_attempts_fail[of example_state
          "scripted [Responded 500, FailedURLError ''timed out'', FailedOther ''TimeoutError'' ''timed out'']"]
  by (simp add: example_state_def example_monitor_def CronMonitor_init_def BASE_URL_def
        scripted_def the_request_def actions_simps requests_simps numeral_3_eq_3 All_less_Suc upto.simps)

text \<open>
  C2, as the code has it: \<^verbatim>\<open>CronMonitor.ping\<close> returns True if and only if one of its
  at most \<open>retries\<close> attempts gets a response with status exactly 200; at the first such
  attempt it returns at once, with no further request; when every attempt fails it returns
  False. The one-shot \<^verbatim>\<open>ping_cronmonitor\<close> of simple.py issues one request and returns
  True if and only if \<^verbatim>\<open>urlopen\<close> returns a response, whatever its status, and False if and
  only if \<^verbatim>\<open>urlopen\<close> raises.
\<close>

theorem success_iff_status_200:
  "(fst (CronMonitor_ping nw s) = Inr True \<longleftrightarrow>
      (\<exists>k<nat (retries (self s)). nw (length (requests (trace s)) + k) = Responded 200))
   \<and> (\<forall>k<nat (retries (self s)).
         nw (length (requests (trace s)) + k) = Responded 200
         \<and> (\<forall>j<k. attempt_fails (nw (length (requests (trace s)) + j)))
         \<longrightarrow> fst (CronMonitor_ping nw s) = Inr True
             \<and> requests (trace (snd (CronMonitor_ping nw s))) =
                 requests (trace s) @ replicate (Suc k) (the_request s))
   \<and> ((\<forall>k<nat (retries (self s)). attempt_fails (nw (length (requests (trace s)) + k)))
         \<longrightarrow> fst (CronMonitor_ping nw s) = Inr False)
   \<and> (fst (ping_cronmonitor nw tr) = Inr True \<longleftrightarrow>
         (\<exists>status. nw (length (requests tr)) = Responded status))
   \<and> (fst (ping_cronmonitor nw tr) = Inr False \<longleftrightarrow>
         (\<forall>status. nw (length (requests tr)) \<noteq> Responded status))
   \<and> requests (snd (ping_cronmonitor nw tr)) = requests tr @ [Request PING_URL [] TIMEOUT]"
proof (intro conjI allI impI)
  show "fst (CronMonitor_ping nw s) = Inr True \<longleftrightarrow>
      (\<exists>k<nat (retries (self s)). nw (length (requests (trace s)) + k) = Responded 200)"
    by (rule CronMonitor_ping_True_iff)
next
  fix k
  assume k: "k < nat (retries (self s))"
    and h: "nw (length (requests (trace s)) + k) = Responded 200
         \<and> (\<forall>j<k. attempt_fails (nw (length (requests (trace s)) + j)))"
  from h have hit: "nw (length (requests (trace s)) + k) = Responded 200"
    and before: "\<forall>j<k. nw (length (requests (trace s)) + j) \<noteq> Responded 200"
    by (simp_all add: attempt_fails_iff)
  show "fst (CronMonitor_ping nw s) = Inr True"
    by (rule CronMonitor_ping_first_success(1)[OF k hit before])
  show "requests (trace (snd (CronMonitor_ping nw s))) =
          requests (trace s) @ replicate (Suc k) (the_request s)"
    by (rule CronMonitor_ping_first_success(2)[OF k hit before])
next
  assume "\<forall>k<nat (retries (self s)). attempt_fails (nw (length (requests (trace s)) + k))"
  then show "fst (CronMonitor_ping nw s) = Inr False"
    by (intro CronMonitor_ping_all_fail) (simp add: attempt_fails_iff)
next
  show "fst (ping_cronmonitor nw tr) = Inr True \<longleftrightarrow>
         (\<exists>status. nw (length (requests tr)) = Responded status)"
    by (simp add: ping_cronmonitor_fst split: http_outcome.splits)
next
  show "fst (ping_cronmonitor nw tr) = Inr False \<longleftrightarrow>
         (\<forall>status. nw (length (requests tr)) \<noteq> Responded status)"
    by (simp add: ping_cronmonitor_fst split: http_outcome.splits)
next
  show "requests (snd (ping_cronmonitor nw tr)) = requests tr @ [Request PING_URL [] TIMEOUT]"
    by (rule ping_cronmonitor_requests)
qed

theorem success_iff_status_200_witness:
  "fst (CronMonitor_ping (scripted [Responded 503, Responded 200]) example_state) = Inr True
   \<and> requests (trace (snd (CronMonitor_ping (scripted [Responded 503, Responded 200]) example_state))) =
       [Request ''https://cronmonitor.app/ping/YOUR_TOKEN'' [(''User-Agent'', ''CronMonitor-Python/1.0'')] 10,
        Request ''https://cronmonitor.app/ping/YOUR_TOKEN'' [(''User-Agent'', ''CronMonitor-Python/1.0'')] 10]
   \<and> fst (ping_cronmonitor (scripted [Responded 503, Responded 200]) []) = Inr True"
  using success_iff_status_200[of "scripted [Responded 503, Responded 200]" example_state "[]"]
  by (simp add: example_state_def example_monitor_def CronMonitor_init_def BASE_URL_def
        scripted_def the_request_def requests_simps numeral_3_eq_3 All_less_Suc Ex_less_Suc)

text \<open>
  The claim as stated fails for simple.py: \<^verbatim>\<open>ping_cronmonitor\<close> never reads the status,
  so the response 204 No Content, which \<^verbatim>\<open>urlopen\<close> returns without raising, is reported
  as a success although no attempt got status 200.
\<close>

theorem ping_cronmonitor_accepts_204:
  "fst (ping_cronmonitor (scripted [Responded 204]) []) = Inr True
   \<and> requests (snd (ping_cronmonitor (scripted [Responded 204]) [])) =
       [Request ''https://cronmonitor.app/ping/YOUR_TOKEN'' [] 10]
   \<and> scripted [Responded 204] 0 \<noteq> Responded 200"
  by (simp add: ping_cronmonitor_def urlopen_def log_simple_def requests_simps scripted_def
        PING_URL_def TIMEOUT_def)

text \<open>
  C3: for every configuration and every sequence of attempt outcomes, exceptions of the
  request included, \<^verbatim>\<open>ping()\<close> returns a boolean and raises nothing; when every
  attempt fails, the boolean is False.
\<close>

theorem ping_never_raises:
  "(\<exists>b. fst (CronMonitor_ping nw s) = Inr b)
   \<and> ((\<forall>k<nat (retries (self s)). attempt_fails (nw (length (requests (trace s)) + k)))
        \<longrightarrow> fst (CronMonitor_ping nw s) = Inr False)"
proof (intro conjI impI)
  show "\<exists>b. fst (CronMonitor_ping nw s) = Inr b"
    by (rule CronMonitor_ping_returns)
next
  assume "\<forall>k<nat (retries (self s)). attempt_fails (nw (length (requests (trace s)) + k))"
  then show "fst (CronMonitor_ping nw s) = Inr False"
    by (intro CronMonitor_ping_all_fail) (simp add: attempt_fails_iff)
qed

theorem ping_never_raises_witness:
  "fst (CronMonitor_ping
          (scripted [FailedOther ''ValueError'' ''unknown url type'', FailedURLError ''timed out''])
          example_state) = Inr False"
  using ping_never_raises[of "scripted [FailedOther ''ValueError'' ''unknown url type'', FailedURLError ''timed out'']" example_state]
  by (simp add: example_state_def example_monitor_def CronMonitor_init_def
        scripted_def requests_simps numeral_3_eq_3 All_less_Suc)

text \<open>
  C4: if the wrapped function raises, the wrapper raises the same exception, \<^verbatim>\<open>ping\<close> is
  not called (the state is the one after the first log line) and no request is issued.
\<close>

theorem wrap_job_raises:
  assumes "func args = Inl e"
  shows "fst (wrap name func nw args s) = Inl e
       \<and> snd (wrap name func nw args s) =
           CronMonitor_log [Lit ''Starting wrapped function: '', Lit name] s
       \<and> requests (trace (snd (wrap name func nw args s))) = requests (trace s)"
  using assms by (simp add: wrap_def wrapper_raises requests_log)

theorem wrap_job_raises_witness:
  "fst (wrap ''my_job'' (\<lambda>u::unit. (Inl (OtherException ''RuntimeError'' ''boom'') :: pyexc + string))
          (scripted [Responded 200]) () example_state)
     = Inl (OtherException ''RuntimeError'' ''boom'')
   \<and> trace (snd (wrap ''my_job'' (\<lambda>u::unit. (Inl (OtherException ''RuntimeError'' ''boom'') :: pyexc + string))
          (scripted [Responded 200]) () example_state))
     = [Print [Lit ''['', Now, Lit ''] [CronMonitor] '', Lit ''Starting wrapped function: '', Lit ''my_job'']]"
  using wrap_job_raises[of "\<lambda>u::unit. (Inl (OtherException ''RuntimeError'' ''boom'') :: pyexc + string)"
          "()" "OtherException ''RuntimeError'' ''boom''" "''my_job''" "scripted [Responded 200]" example_state]
  by (simp add: CronMonitor_log_def example_state_def example_monitor_def CronMonitor_init_def)

text \<open>
  C5: when the block raised, \<^verbatim>\<open>__exit__\<close> issues no request and returns False, and the
  \<^verbatim>\<open>with\<close> statement raises the exception of the block; when the block completed,
  \<^verbatim>\<open>__exit__\<close> calls \<^verbatim>\<open>ping()\<close> once.
\<close>

theorem exit_contract:
  "fst (CronMonitor_exit nw (Some e) s) = Inr False
   \<and> requests (trace (snd (CronMonitor_exit nw (Some e) s))) = requests (trace s)
   \<and> fst (with_monitor nw (Some e) s) = Inl e
   \<and> requests (trace (snd (with_monitor nw (Some e) s))) = requests (trace s)
   \<and> CronMonitor_exit nw None s =
       (Inr False, snd (CronMonitor_ping nw
          (CronMonitor_log [Lit ''Context completed successfully, sending ping...''] s)))
   \<and> with_monitor nw None s =
       (Inr (), snd (CronMonitor_ping nw
          (CronMonitor_log [Lit ''Context completed successfully, sending ping...'']
            (CronMonitor_log [Lit ''Entering CronMonitor context''] s))))"
  by (simp add: CronMonitor_exit_Some with_monitor_Some requests_log
        CronMonitor_exit_None[symmetric] with_monitor_None[symmetric])

theorem exit_contract_witness:
  "fst (CronMonitor_exit (scripted [Responded 200]) (Some (OtherException ''ValueError'' ''bad'')) example_state)
     = Inr False
   \<and> trace (snd (CronMonitor_exit (scripted [Responded 200]) (Some (OtherException ''ValueError'' ''bad'')) example_state))
     = [Print [Lit ''['', Now, Lit ''] [CronMonitor] '', Lit ''Context exited with exception: '', Lit ''ValueError'']]
   \<and> fst (with_monitor (scripted [Responded 200]) (Some (OtherException ''ValueError'' ''bad'')) example_state)
     = Inl (OtherException ''ValueError'' ''bad'')
   \<and> requests (trace (snd (with_monitor (scripted [Responded 200]) None example_state)))
     = [Request ''https://cronmonitor.app/ping/YOUR_TOKEN'' [(''User-Agent'', ''CronMonitor-Python/1.0'')] 10]"
  using exit_contract[of "scripted [Responded 200]" "OtherException ''ValueError'' ''bad''" example_state]
  by (simp add: CronMonitor_exit_def CronMonitor_ping_def try_attempt_def try_body_def backoff_def
        urlopen_def time_sleep_def CronMonitor_log_def scripted_def example_state_def
        example_monitor_def CronMonitor_init_def BASE_URL_def requests_simps Let_def upto.simps)

text \<open>
  C6: if the wrapped function returns \<open>v\<close>, the wrapper calls \<^verbatim>\<open>ping()\<close> and returns \<open>v\<close>,
  whatever the network answers to that ping: its result is dropped.
\<close>

theorem wrap_job_returns:
  assumes "func args = Inr v"
  shows "fst (wrap name func nw args s) = Inr v
       \<and> snd (wrap name func nw args s) =
           snd (CronMonitor_ping nw
             (CronMonitor_log [Lit ''Function '', Lit name, Lit '' completed, sending ping...'']
               (CronMonitor_log [Lit ''Starting wrapped function: '', Lit name] s)))"
  using assms by (simp add: wrap_def wrapper_returns)

theorem wrap_job_returns_witness:
  "fst (wrap ''my_decorated_job'' (\<lambda>u::unit. (Inr ''result'' :: pyexc + string))
          (scripted []) () example_state) = Inr ''result''
   \<and> fst (wrap ''my_decorated_job'' (\<lambda>u::unit. (Inr ''result'' :: pyexc + string))
          (scripted [Responded 200]) () example_state) = Inr ''result''"
  using wrap_job_returns[of "\<lambda>u::unit. (Inr ''result'' :: pyexc + string)" "()" "''result''"
          "''my_decorated_job''" "scripted []" example_state]
        wrap_job_returns[of "\<lambda>u::unit. (Inr ''result'' :: pyexc + string)" "()" "''result''"
          "''my_decorated_job''" "scripted [Responded 200]" example_state]
  by simp

text \<open>
  C7: \<^verbatim>\<open>main()\<close> returns 0 whenever the job completes, whatever the outcome of the ping
  that follows; it returns 1 when the job raises or is interrupted, and then no request
  is issued.
\<close>

theorem main_exit_status:
  "fst (main nw None tr) = Inr 0
   \<and> requests (snd (main nw None tr)) = requests tr @ [Request PING_URL [] TIMEOUT]
   \<and> fst (main nw (Some e) tr) = Inr 1
   \<and> requests (snd (main nw (Some e) tr)) = requests tr"
proof -
  let ?tr1 = "log_simple [Lit ''Job completed successfully!'']
                (log_simple [Lit ''Starting job...''] tr @ [Sleep 1])"
  obtain r tr2 where p: "ping_cronmonitor nw ?tr1 = (r, tr2)"
    by (cases "ping_cronmonitor nw ?tr1")
  obtain b where r: "r = Inr b"
    using ping_cronmonitor_returns[of nw ?tr1] p by auto
  have rq: "requests tr2 = requests tr @ [Request PING_URL [] TIMEOUT]"
    using ping_cronmonitor_requests[of nw ?tr1] p
    by (simp add: requests_log_simple requests_simps)
  have ok: "main nw None tr = (Inr 0, tr2)"
    by (simp add: main_def run_job_None p r)
  have ko: "main nw (Some e) tr = main_handlers e (log_simple [Lit ''Starting job...''] tr)"
    by (simp add: main_def run_job_Some)
  show ?thesis
    by (simp add: ok rq ko main_handlers_fst main_handlers_requests requests_log_simple)
qed

theorem main_exit_status_witness:
  "fst (main (scripted [FailedURLError ''unreachable'']) None []) = Inr 0
   \<and> fst (main (scripted [Responded 200]) None []) = Inr 0
   \<and> fst (main (scripted [Responded 200]) (Some KeyboardInterrupt) []) = Inr 1
   \<and> requests (snd (main (scripted [Responded 200]) (Some KeyboardInterrupt) [])) = []"
  using main_exit_status[of "scripted [FailedURLError ''unreachable'']" "[]" KeyboardInterrupt]
        main_exit_status[of "scripted [Responded 200]" "[]" KeyboardInterrupt]
  by (simp add: requests_simps)

text \<open>
  C8: the module-level \<^verbatim>\<open>ping(token, timeout)\<close> is the delivery operation of a Notifier
  constructed with that token and timeout, retries 3 and not verbose: the same result and
  the same trace, hence the same requests. Without a timeout it uses 10.
\<close>

theorem ping_convenience_equiv:
  "ping tok (Some tmo) nw tr = spec_attemptDelivery_once tok tmo nw tr
   \<and> ping tok None nw tr = spec_attemptDelivery_once tok 10 nw tr
   \<and> fst (ping tok (Some tmo) nw tr) =
       fst (CronMonitor_ping nw \<lparr> self = spec_default_Notifier tok tmo, trace = tr \<rparr>)
   \<and> requests (snd (ping tok (Some tmo) nw tr)) =
       requests (trace (snd (CronMonitor_ping nw \<lparr> self = spec_default_Notifier tok tmo, trace = tr \<rparr>)))"
  by (simp add: ping_def spec_attemptDelivery_once_def spec_default_Notifier_def
        default_retries_def default_verbose_def split: prod.splits)

theorem ping_convenience_equiv_witness:
  "ping ''YOUR_TOKEN'' (Some 5) (scripted [Responded 500, Responded 200]) [] =
     (Inr True,
      [Request ''https://cronmonitor.app/ping/YOUR_TOKEN'' [(''User-Agent'', ''CronMonitor-Python/1.0'')] 5,
       Sleep (1 / 2),
       Request ''https://cronmonitor.app/ping/YOUR_TOKEN'' [(''User-Agent'', ''CronMonitor-Python/1.0'')] 5])"
  using ping_convenience_equiv[of "''YOUR_TOKEN''" 5 "scripted [Responded 500, Responded 200]" "[]"]
  by (simp add: spec_attemptDelivery_once_def spec_default_Notifier_def
        CronMonitor_ping_def try_attempt_def try_body_def backoff_def
        urlopen_def time_sleep_def CronMonitor_log_def scripted_def
        CronMonitor_init_def BASE_URL_def requests_simps Let_def upto.simps)

text \<open>
  C9: \<^verbatim>\<open>ping\<close>, the wrappers that \<^verbatim>\<open>wrap\<close> returns, \<^verbatim>\<open>__enter__\<close>, \<^verbatim>\<open>__exit__\<close> and the
  whole \<^verbatim>\<open>with\<close> statement leave every attribute of the instance (token, timeout, retries,
  verbose flag, ping URL) as it was.
\<close>

theorem configuration_immutable:
  "self (snd (CronMonitor_ping nw s)) = self s
   \<and> self (snd (wrap name func nw args s)) = self s
   \<and> fst (CronMonitor_enter s) = Inr (self s)
   \<and> self (snd (CronMonitor_enter s)) = self s
   \<and> self (snd (CronMonitor_exit nw exc s)) = self s
   \<and> self (snd (with_monitor nw body s)) = self s"
proof -
  have ex: "self (snd (CronMonitor_exit nw exc s)) = self s"
    by (cases exc) (simp_all add: CronMonitor_exit_None CronMonitor_exit_Some CronMonitor_ping_self self_log)
  have wm: "self (snd (with_monitor nw body s)) = self s"
    by (cases body) (simp_all add: with_monitor_None with_monitor_Some CronMonitor_ping_self self_log)
  show ?thesis
    by (simp add: CronMonitor_ping_self wrap_def wrapper_self CronMonitor_enter_def self_log Let_def ex wm)
qed

theorem configuration_immutable_witness:
  "self (snd (CronMonitor_ping (scripted [Responded 500, Responded 200]) example_state)) = example_monitor
   \<and> self (snd (wrap ''my_decorated_job'' (\<lambda>u::unit. (Inr ''result'' :: pyexc + string))
                  (scripted [Responded 500, Responded 200]) () example_state)) = example_monitor
   \<and> fst (CronMonitor_enter example_state) = Inr example_monitor
   \<and> self (snd (CronMonitor_exit (scripted [Responded 500, Responded 200]) None example_state)) = example_monitor
   \<and> self (snd (with_monitor (scripted [Responded 500, Responded 200]) (Some KeyboardInterrupt) example_state))
       = example_monitor"
  using configuration_immutable[of "scripted [Responded 500, Responded 200]" example_state
          "''my_decorated_job''" "\<lambda>u::unit. (Inr ''result'' :: pyexc + string)" "()" None
          "Some KeyboardInterrupt"]
  by (simp add: example_state_def)

text \<open>
  C10: the constructor stores whatever it is given, the empty token and \<open>retries = 0\<close>
  included; with \<open>retries \<le> 0\<close>, \<^verbatim>\<open>ping()\<close> issues no request, does not sleep, and
  returns False.
\<close>

theorem no_validation_zero_retries:
  "CronMonitor_init tok tmo rts vb =
     \<lparr> token = tok, timeout = tmo, retries = rts, verbose = vb,
       ping_url = ''https://cronmonitor.app/ping/'' @ tok \<rparr>
   \<and> (retries (self s) \<le> 0 \<longrightarrow>
        fst (CronMonitor_ping nw s) = Inr False
        \<and> snd (CronMonitor_ping nw s) = CronMonitor_log [Lit ''All ping attempts failed''] s
        \<and> requests (trace (snd (CronMonitor_ping nw s))) = requests (trace s)
        \<and> sleeps (trace (snd (CronMonitor_ping nw s))) = sleeps (trace s))"
  by (simp add: CronMonitor_init_def BASE_URL_def CronMonitor_ping_def requests_log sleeps_log)

theorem no_validation_zero_retries_witness:
  "CronMonitor_init [] 10 0 False =
     \<lparr> token = [], timeout = 10, retries = 0, verbose = False,
       ping_url = ''https://cronmonitor.app/ping/'' \<rparr>
   \<and> CronMonitor_ping (scripted [Responded 200]) \<lparr> self = CronMonitor_init [] 10 0 False, trace = [] \<rparr> =
       (Inr False, \<lparr> self = CronMonitor_init [] 10 0 False, trace = [] \<rparr>)"
  using no_validation_zero_retries[of "[]" 10 0 False
          "\<lparr> self = CronMonitor_init [] 10 0 False, trace = [] \<rparr>" "scripted [Responded 200]"]
  by (simp add: CronMonitor_init_def CronMonitor_log_def prod_eq_iff)

end
